theory Spec2Isabelle
  imports Main
begin

section \<open>Python values and exceptions\<close>

text \<open>
  The routes of \<^verbatim>\<open>app/routers/ytm_router.py\<close> handle dynamically typed data: the
  document read back by \<^verbatim>\<open>json.load\<close> and the records returned by the third-party
  client. Such a value is a \<open>pyval\<close>; a dict is an association list in insertion order
  whose keys are strings, read with \<open>map_of\<close>. Strings are lists of code points below
  256. Floats do not occur in the data the routes inspect and are left out.
\<close>

datatype pyval =
    PNone
  | PBool bool
  | PInt int
  | PStr string
  | PList "pyval list"
  | PDict "(string \<times> pyval) list"

text \<open>
  Exceptions are values. \<open>HTTPException\<close> carries the status code and the detail;
  \<open>RequestValidationError\<close> is what the framework raises (status 422) when a declared
  bound of a query parameter is violated; \<open>UpstreamError\<close> stands for whatever the
  third-party client raises (network, parsing, expired credentials).
\<close>

datatype exn =
    HTTPException nat string
  | RequestValidationError
  | AttributeError
  | TypeError
  | KeyError
  | IndexError
  | OSError
  | JSONDecodeError
  | UpstreamError string

text \<open>Truth value testing (\<^verbatim>\<open>if x\<close>, \<^verbatim>\<open>not x\<close>, \<^verbatim>\<open>x or y\<close>).\<close>

fun truthy :: "pyval \<Rightarrow> bool" where
  "truthy PNone = False"
| "truthy (PBool b) = b"
| "truthy (PInt i) = (i \<noteq> 0)"
| "truthy (PStr s) = (s \<noteq> [])"
| "truthy (PList xs) = (xs \<noteq> [])"
| "truthy (PDict kvs) = (kvs \<noteq> [])"

definition py_or :: "pyval \<Rightarrow> pyval \<Rightarrow> pyval" where
  "py_or a b = (if truthy a then a else b)"

fun is_dict :: "pyval \<Rightarrow> bool" where
  "is_dict (PDict kvs) = True"
| "is_dict v = False"

fun is_list :: "pyval \<Rightarrow> bool" where
  "is_list (PList xs) = True"
| "is_list v = False"

text \<open>\<^verbatim>\<open>d.get(k, default)\<close> on a dict.\<close>

definition dict_get :: "(string \<times> pyval) list \<Rightarrow> string \<Rightarrow> pyval \<Rightarrow> pyval" where
  "dict_get kvs k dflt = (case map_of kvs k of Some v \<Rightarrow> v | None \<Rightarrow> dflt)"

text \<open>
  \<^verbatim>\<open>x.get(k, default)\<close> on any value: only a dict has the attribute.
\<close>

fun py_get :: "pyval \<Rightarrow> string \<Rightarrow> pyval \<Rightarrow> exn + pyval" where
  "py_get (PDict kvs) k dflt = Inr (dict_get kvs k dflt)"
| "py_get v k dflt = Inl AttributeError"

text \<open>
  Iteration (\<^verbatim>\<open>for x in v\<close>): a list yields its elements, a string its one-character
  strings, a dict its keys; the other values are not iterable.
\<close>

fun py_iter :: "pyval \<Rightarrow> exn + pyval list" where
  "py_iter (PList xs) = Inr xs"
| "py_iter (PStr s) = Inr (map (\<lambda>c. PStr [c]) s)"
| "py_iter (PDict kvs) = Inr (map (\<lambda>kv. PStr (fst kv)) kvs)"
| "py_iter v = Inl TypeError"

text \<open>
  \<^verbatim>\<open>v[0]\<close>: the first element of a list or string (\<open>IndexError\<close> when empty); a dict
  is looked up at the key \<open>0\<close>, which no dict with string keys has; the other values are
  not subscriptable.
\<close>

fun py_first :: "pyval \<Rightarrow> exn + pyval" where
  "py_first (PList []) = Inl IndexError"
| "py_first (PList (x # xs)) = Inr x"
| "py_first (PStr []) = Inl IndexError"
| "py_first (PStr (c # cs)) = Inr (PStr [c])"
| "py_first (PDict kvs) = Inl KeyError"
| "py_first v = Inl TypeError"


section \<open>Join codes (\<^verbatim>\<open>app/services/code_service.py\<close>)\<close>

definition BASE_ALPHABET :: string where
  "BASE_ALPHABET = ''23456789ABCDEFGHJKLMNPQRSTUVWXYZ''"

definition SPECIALS :: string where
  "SPECIALS = ''!@#$%&*?''"

definition DEFAULT_ALPHABET :: string where
  "DEFAULT_ALPHABET = BASE_ALPHABET @ SPECIALS"

text \<open>
  \<^verbatim>\<open>secrets.choice(seq)\<close> raises \<open>IndexError\<close> on an empty sequence and otherwise
  returns \<^verbatim>\<open>seq[randbelow(len(seq))]\<close>. The entropy source is a parameter: \<open>r\<close> is the
  raw number drawn for this call, reduced below \<open>length seq\<close>.
\<close>

definition choice :: "nat \<Rightarrow> 'a list \<Rightarrow> exn + 'a" where
  "choice r seq = (if seq = [] then Inl IndexError else Inr (seq ! (r mod length seq)))"

text \<open>
  The generator expression \<^verbatim>\<open>secrets.choice(alphabet) for _ in range(length)\<close>, joined:
  one draw per index, the first exception ends the join. \<open>rnd i\<close> is the raw number of
  the \<open>i\<close>-th draw.
\<close>

fun join_choices :: "(nat \<Rightarrow> nat) \<Rightarrow> nat list \<Rightarrow> 'a list \<Rightarrow> exn + 'a list" where
  "join_choices rnd [] alphabet = Inr []"
| "join_choices rnd (i # is) alphabet =
     (case choice (rnd i) alphabet of
        Inl e \<Rightarrow> Inl e
      | Inr c \<Rightarrow> (case join_choices rnd is alphabet of
                    Inl e \<Rightarrow> Inl e
                  | Inr cs \<Rightarrow> Inr (c # cs)))"

text \<open>\<^verbatim>\<open>range(length)\<close> is empty for a negative length.\<close>

definition generate_code :: "(nat \<Rightarrow> nat) \<Rightarrow> int \<Rightarrow> string \<Rightarrow> exn + string" where
  "generate_code rnd len alphabet = join_choices rnd [0 ..< nat len] alphabet"


section \<open>Slugs (\<^verbatim>\<open>app/services/utils_service.py\<close>)\<close>

text \<open>
  Characters are code points below 256. \<^verbatim>\<open>str.strip()\<close> removes the characters for
  which \<^verbatim>\<open>str.isspace\<close> holds; \<^verbatim>\<open>str.lower()\<close> moves \<open>A\<close>..\<open>Z\<close> and the upper-case
  letters of Latin-1 (\<open>0xC0\<close>..\<open>0xDE\<close> without \<open>0xD7\<close>) up by 32.
\<close>

definition isspace :: "char \<Rightarrow> bool" where
  "isspace c = (let n = (of_char c :: nat) in
     (9 \<le> n \<and> n \<le> 13) \<or> (28 \<le> n \<and> n \<le> 32) \<or> n = 133 \<or> n = 160)"

definition lower_char :: "char \<Rightarrow> char" where
  "lower_char c = (let n = (of_char c :: nat) in
     if (65 \<le> n \<and> n \<le> 90) \<or> (192 \<le> n \<and> n \<le> 222 \<and> n \<noteq> 215)
     then char_of (n + 32) else c)"

definition lower :: "string \<Rightarrow> string" where
  "lower s = map lower_char s"

text \<open>\<^verbatim>\<open>s.strip()\<close> and \<^verbatim>\<open>s.strip(chars)\<close>, by the predicate of the stripped characters.\<close>

definition strip_by :: "(char \<Rightarrow> bool) \<Rightarrow> string \<Rightarrow> string" where
  "strip_by p s = rev (dropWhile p (rev (dropWhile p s)))"

text \<open>The character class \<^verbatim>\<open>[a-z0-9]\<close>; \<^verbatim>\<open>_slug_re\<close> matches the runs outside it.\<close>

definition slug_char :: "char \<Rightarrow> bool" where
  "slug_char c = (let n = (of_char c :: nat) in
     (97 \<le> n \<and> n \<le> 122) \<or> (48 \<le> n \<and> n \<le> 57))"

text \<open>
  \<^verbatim>\<open>_slug_re.sub("-", s)\<close>: every maximal run of characters outside the class becomes
  one hyphen.
\<close>

function slug_re_sub :: "string \<Rightarrow> string" where
  "slug_re_sub [] = []"
| "slug_re_sub (c # cs) =
     (if slug_char c then c # slug_re_sub cs
      else CHR ''-'' # slug_re_sub (dropWhile (\<lambda>x. \<not> slug_char x) cs))"
  by pat_completeness auto
termination
  by (relation "measure length") (auto simp: length_dropWhile_le less_Suc_eq_le)

definition slugify :: "string \<Rightarrow> string" where
  "slugify text =
     (let s = lower (strip_by isspace text);
          s = strip_by (\<lambda>c. c = CHR ''-'') (slug_re_sub s)
      in if s \<noteq> [] then s else ''n-a'')"


section \<open>Configuration (\<^verbatim>\<open>app/config.py\<close>)\<close>

record Settings =
  api_name :: string
  api_version :: string
  cors_origins :: "string list"
  code_length :: int
  code_alphabet :: string
  max_generate :: int
  ytm_client_token :: string

definition settings :: Settings where
  "settings = \<lparr> api_name = ''Backend Service'', api_version = ''1.0.0'',
     cors_origins = [''http://localhost:5173'', ''http://localhost:3000'', ''chrome-extension://*''],
     code_length = 4, code_alphabet = ''23456789ABCDEFGHJKLMNPQRSTUVWXYZ!@#$%&*?'',
     max_generate = 100, ytm_client_token = ''dev-token'' \<rparr>"


section \<open>The credential store (\<^verbatim>\<open>load_headers\<close>, \<^verbatim>\<open>save_headers\<close>)\<close>

text \<open>
  The file system is the environment of the program; the model keeps of it what the
  router touches, the one file at \<^verbatim>\<open>HEADERS_FILE\<close>.

  The text of the file is kept up to what \<^verbatim>\<open>json.load\<close> makes of it: \<open>Dumped v\<close> is a
  text that parses to the value \<open>v\<close>, in particular the text that
  \<^verbatim>\<open>json.dump(v, f, indent=2)\<close> writes (the values of \<open>pyval\<close> are the ones the codec
  carries over unchanged); \<open>Garbage\<close> is a text the parser rejects.

  The file is \<open>Missing\<close>, or \<open>Unreadable\<close> (the path exists and cannot be opened for
  reading: a file without read permission, a directory), or it has a \<open>Text\<close>.
  \<open>writable\<close> says whether \<^verbatim>\<open>os.makedirs\<close> of the data directory and the opening of
  the file for writing succeed, \<open>removable\<close> whether \<^verbatim>\<open>os.remove\<close> does, and
  \<open>remove_error\<close> is the text of the exception \<^verbatim>\<open>os.remove\<close> raises when it fails. The
  flags are independent of the state of the file: a file that is \<open>Unreadable\<close> and
  \<open>writable\<close> is a write-only file (mode 0200), and writing to it leaves it unreadable,
  since a write keeps the permissions of an existing file. A write that began is
  completed: the model has no full disk and no second process.
\<close>

datatype file_text = Garbage | Dumped pyval

datatype file_state = Missing | Unreadable | Text file_text

record fs =
  headers_file :: file_state
  writable :: bool
  removable :: bool
  remove_error :: string

definition os_path_exists :: "fs \<Rightarrow> bool" where
  "os_path_exists d = (headers_file d \<noteq> Missing)"

text \<open>\<^verbatim>\<open>open(HEADERS_FILE, "r")\<close> and the reading of the whole text.\<close>

definition open_r :: "fs \<Rightarrow> exn + file_text" where
  "open_r d = (case headers_file d of
     Missing \<Rightarrow> Inl OSError
   | Unreadable \<Rightarrow> Inl OSError
   | Text t \<Rightarrow> Inr t)"

definition json_load :: "file_text \<Rightarrow> exn + pyval" where
  "json_load t = (case t of Garbage \<Rightarrow> Inl JSONDecodeError | Dumped v \<Rightarrow> Inr v)"

text \<open>
  \<^verbatim>\<open>load_headers\<close>: the \<^verbatim>\<open>try\<close> block returns the parsed value, or falls through when
  the file does not exist, or raises; \<^verbatim>\<open>except Exception: pass\<close> turns a raise into the
  fall-through, which returns \<^verbatim>\<open>None\<close>.
\<close>

definition load_headers :: "fs \<Rightarrow> exn + pyval" where
  "load_headers d =
     (case (if os_path_exists d
            then (case open_r d of Inl e \<Rightarrow> Inl e | Inr f \<Rightarrow> json_load f)
            else Inr PNone) of
        Inl e \<Rightarrow> Inr PNone
      | Inr v \<Rightarrow> Inr v)"

definition os_makedirs :: "fs \<Rightarrow> exn + unit" where
  "os_makedirs d = (if writable d then Inr () else Inl OSError)"

text \<open>
  \<^verbatim>\<open>with open(HEADERS_FILE, "w") as f: json.dump(data, f, indent=2)\<close>: the file is
  created or truncated and the dump written; a file that could not be read before cannot
  be read after.
\<close>

definition open_w_dump :: "fs \<Rightarrow> pyval \<Rightarrow> exn + fs" where
  "open_w_dump d data =
     (if \<not> writable d then Inl OSError
      else Inr (d\<lparr>headers_file :=
                  (case headers_file d of
                     Unreadable \<Rightarrow> Unreadable
                   | Missing \<Rightarrow> Text (Dumped data)
                   | Text t \<Rightarrow> Text (Dumped data))\<rparr>))"

text \<open>\<^verbatim>\<open>save_headers\<close> returns its verdict and the file system it leaves.\<close>

definition save_headers :: "fs \<Rightarrow> pyval \<Rightarrow> bool \<times> fs" where
  "save_headers d data =
     (case (case os_makedirs d of Inl e \<Rightarrow> Inl e | Inr u \<Rightarrow> open_w_dump d data) of
        Inl e \<Rightarrow> (False, d)
      | Inr d' \<Rightarrow> (True, d'))"

text \<open>
  \<^verbatim>\<open>os.remove(HEADERS_FILE)\<close>: the failure is an \<^verbatim>\<open>OSError\<close>, given here by its text
  \<^verbatim>\<open>str(e)\<close>, which is all its handler reads.
\<close>

definition os_remove :: "fs \<Rightarrow> string + fs" where
  "os_remove d =
     (if headers_file d = Missing \<or> \<not> removable d then Inl (remove_error d)
      else Inr (d\<lparr>headers_file := Missing\<rparr>))"

text \<open>The request body of \<^verbatim>\<open>/ytm/ingest\<close> and \<^verbatim>\<open>payload.dict()\<close>.\<close>

record HeaderIngest =
  url :: string
  time :: string
  headers :: "(string \<times> string) list"

definition payload_dict :: "HeaderIngest \<Rightarrow> pyval" where
  "payload_dict payload = PDict
     [(''url'', PStr (url payload)),
      (''time'', PStr (time payload)),
      (''headers'', PDict (map (\<lambda>kv. (fst kv, PStr (snd kv))) (headers payload)))]"


section \<open>Formatting a value (\<^verbatim>\<open>f"{val}"\<close>)\<close>

text \<open>
  An f-string formats a string as itself and every other value by \<^verbatim>\<open>str\<close>, which for
  a container is \<^verbatim>\<open>repr\<close>. Header values of an ingested document are strings; the
  other clauses say what the code does with a file that holds something else.
\<close>

definition digit_char :: "nat \<Rightarrow> char" where
  "digit_char d = (if d < 10 then char_of (48 + d) else char_of (87 + d))"

function str_nat :: "nat \<Rightarrow> string" where
  "str_nat n = (if n < 10 then [digit_char n] else str_nat (n div 10) @ [digit_char (n mod 10)])"
  by pat_completeness auto
termination
  by (relation "measure id") auto

definition str_int :: "int \<Rightarrow> string" where
  "str_int i = (if i < 0 then CHR ''-'' # str_nat (nat (- i)) else str_nat (nat i))"

definition printable :: "char \<Rightarrow> bool" where
  "printable c = (let n = (of_char c :: nat) in
     (32 \<le> n \<and> n < 127) \<or> (161 \<le> n \<and> n \<noteq> 173))"

definition repr_char :: "char \<Rightarrow> char \<Rightarrow> string" where
  "repr_char q c =
     (if c = q \<or> c = CHR 0x5C then [CHR 0x5C, c]
      else if c = CHR 0x09 then [CHR 0x5C, CHR ''t'']
      else if c = CHR 0x0A then [CHR 0x5C, CHR ''n'']
      else if c = CHR 0x0D then [CHR 0x5C, CHR ''r'']
      else if printable c then [c]
      else [CHR 0x5C, CHR ''x'', digit_char (of_char c div 16), digit_char (of_char c mod 16)])"

definition repr_str :: "string \<Rightarrow> string" where
  "repr_str s =
     (let q = (if CHR 0x27 \<in> set s \<and> CHR 0x22 \<notin> set s then CHR 0x22 else CHR 0x27)
      in q # concat (map (repr_char q) s) @ [q])"

fun join :: "string \<Rightarrow> string list \<Rightarrow> string" where
  "join sep [] = []"
| "join sep [x] = x"
| "join sep (x # y # ys) = x @ sep @ join sep (y # ys)"

fun py_repr :: "pyval \<Rightarrow> string" where
  "py_repr PNone = ''None''"
| "py_repr (PBool b) = (if b then ''True'' else ''False'')"
| "py_repr (PInt i) = str_int i"
| "py_repr (PStr s) = repr_str s"
| "py_repr (PList xs) = ''['' @ join '', '' (map py_repr xs) @ '']''"
| "py_repr (PDict kvs) =
     ''{'' @ join '', '' (map (\<lambda>kv. repr_str (fst kv) @ '': '' @ py_repr (snd kv)) kvs) @ ''}''"

fun py_str :: "pyval \<Rightarrow> string" where
  "py_str (PStr s) = s"
| "py_str v = py_repr v"


section \<open>The session cache (\<^verbatim>\<open>_get_cached_auth_string\<close>, \<^verbatim>\<open>_make_yt\<close>)\<close>

text \<open>
  The third-party package \<^verbatim>\<open>ytmusicapi\<close> is a parameter of the model. A client object
  is given by the outcome of each call the routes make on it (the value it returns or
  the exception it raises); the package is given by its \<^verbatim>\<open>setup\<close> function and the
  constructor \<^verbatim>\<open>YTMusic\<close>, both of which may raise.
\<close>

record YTMusic =
  yt_get_history :: "exn + pyval"
  yt_get_library_playlists :: "exn + pyval"
  yt_search :: "string \<Rightarrow> string \<Rightarrow> int \<Rightarrow> exn + pyval"

record ytmusicapi =
  ytm_setup :: "string \<Rightarrow> exn + string"
  ytm_YTMusic :: "string \<Rightarrow> exn + YTMusic"

text \<open>The keys read from the stored headers, in the order of the loop.\<close>

definition HEADER_KEYS :: "string list" where
  "HEADER_KEYS =
     [''authorization'',
      ''x-goog-authuser'',
      ''x-goog-visitor-id'',
      ''x-origin'',
      ''x-youtube-client-name'',
      ''x-youtube-client-version'',
      ''user-agent'',
      ''accept-language'',
      ''cookie'']"

text \<open>
  The loop over the keys: \<^verbatim>\<open>val = headers.get(key)\<close>, and a line
  \<^verbatim>\<open>f"{key}: {val}"\<close> is appended when \<^verbatim>\<open>val\<close> is truthy.
\<close>

fun raw_lines :: "pyval \<Rightarrow> string list \<Rightarrow> exn + string list" where
  "raw_lines hdrs [] = Inr []"
| "raw_lines hdrs (key # keys) =
     (case py_get hdrs key PNone of
        Inl e \<Rightarrow> Inl e
      | Inr val \<Rightarrow>
          (case raw_lines hdrs keys of
             Inl e \<Rightarrow> Inl e
           | Inr ls \<Rightarrow> Inr (if truthy val then (key @ '': '' @ py_str val) # ls else ls)))"

text \<open>
  The body under \<^verbatim>\<open>@lru_cache(maxsize=1)\<close>: the document is read from the store, an
  empty document or an empty list of lines gives \<^verbatim>\<open>None\<close>, and the lines joined by
  newlines go to \<^verbatim>\<open>setup\<close>.
\<close>

definition get_auth_string_wrapped :: "ytmusicapi \<Rightarrow> fs \<Rightarrow> exn + string option" where
  "get_auth_string_wrapped lib d =
     (case load_headers d of
        Inl e \<Rightarrow> Inl e
      | Inr headers_data \<Rightarrow>
          if \<not> truthy headers_data then Inr None
          else (case py_get headers_data ''headers'' PNone of
             Inl e \<Rightarrow> Inl e
           | Inr h \<Rightarrow>
               (case raw_lines (py_or h (PDict [])) HEADER_KEYS of
                  Inl e \<Rightarrow> Inl e
                | Inr ls \<Rightarrow>
                    if ls = [] then Inr None
                    else (case ytm_setup lib (join [CHR 0x0A] ls) of
                       Inl e \<Rightarrow> Inl e
                     | Inr auth \<Rightarrow> Inr (Some auth)))))"

text \<open>
  The state of the process: the file system and the one slot of the cache, which is
  empty (\<open>None\<close>) or holds the value the body returned last (\<open>Some r\<close>, where \<open>r\<close>
  may be \<^verbatim>\<open>None\<close>). A call that raises stores nothing.
\<close>

record state =
  disk :: fs
  cache :: "string option option"

definition get_cached_auth_string :: "ytmusicapi \<Rightarrow> state \<Rightarrow> (exn + string option) \<times> state" where
  "get_cached_auth_string lib s =
     (case cache s of
        Some r \<Rightarrow> (Inr r, s)
      | None \<Rightarrow>
          (case get_auth_string_wrapped lib (disk s) of
             Inl e \<Rightarrow> (Inl e, s)
           | Inr r \<Rightarrow> (Inr r, s\<lparr>cache := Some r\<rparr>)))"

definition cache_clear :: "state \<Rightarrow> state" where
  "cache_clear s = s\<lparr>cache := None\<rparr>"

text \<open>\<^verbatim>\<open>_make_yt\<close>: no client for an auth string that is \<^verbatim>\<open>None\<close> or empty.\<close>

definition make_yt :: "ytmusicapi \<Rightarrow> state \<Rightarrow> (exn + YTMusic option) \<times> state" where
  "make_yt lib s =
     (case get_cached_auth_string lib s of
        (Inl e, s') \<Rightarrow> (Inl e, s')
      | (Inr auth, s') \<Rightarrow>
          (case auth of
             None \<Rightarrow> (Inr None, s')
           | Some a \<Rightarrow>
               if a = [] then (Inr None, s')
               else (case ytm_YTMusic lib a of
                  Inl e \<Rightarrow> (Inl e, s')
                | Inr yt \<Rightarrow> (Inr (Some yt), s'))))"


section \<open>The routes\<close>

text \<open>
  A route takes the request, the settings, the third-party package and the state of the
  process; it returns the value its handler returns (which the framework sends with
  status 200) or the exception it raises, and the state it leaves. An \<open>HTTPException\<close>
  is answered with its status code; any other exception leaves the route unhandled. The
  calls handed to the worker pool are made in place: a single request is followed, not
  the interleaving of several.
\<close>

definition verify_token :: "string option \<Rightarrow> Settings \<Rightarrow> exn + unit" where
  "verify_token x_client_token cfg =
     (if x_client_token \<noteq> Some (ytm_client_token cfg)
      then Inl (HTTPException 401 ''Invalid token'')
      else Inr ())"

definition NO_HEADERS :: string where
  "NO_HEADERS = ''No headers found. Visit music.youtube.com with the extension loaded and play a track.''"

definition HISTORY_FAILED :: string where
  "HISTORY_FAILED = ''Failed to get history from YouTube Music API''"

definition NOT_CONNECTED :: pyval where
  "NOT_CONNECTED = PDict
     [(''ok'', PBool False),
      (''message'', PStr ''Not connected yet. Open music.youtube.com with the extension enabled and play a track.'')]"

definition CONNECTED_NO_HISTORY :: pyval where
  "CONNECTED_NO_HISTORY = PDict
     [(''ok'', PBool False),
      (''message'', PStr ''Connected, but no history returned yet. Try playing a track and retry.'')]"

text \<open>
  \<^verbatim>\<open>/ytm/ingest\<close>: the cache is cleared after a successful save only. The \<^verbatim>\<open>try\<close>
  around \<^verbatim>\<open>cache_clear()\<close> guards a call that does not raise.
\<close>

definition ingest_headers ::
  "HeaderIngest \<Rightarrow> string option \<Rightarrow> Settings \<Rightarrow> state \<Rightarrow> (exn + pyval) \<times> state" where
  "ingest_headers payload x_client_token cfg s =
     (case verify_token x_client_token cfg of
        Inl e \<Rightarrow> (Inl e, s)
      | Inr u \<Rightarrow>
          (case save_headers (disk s) (payload_dict payload) of
             (saved, d') \<Rightarrow>
               if \<not> saved then (Inl (HTTPException 500 ''Failed to save headers''), s\<lparr>disk := d'\<rparr>)
               else (Inr (PStr ''OK''), cache_clear (s\<lparr>disk := d'\<rparr>))))"

text \<open>\<^verbatim>\<open>_try_history\<close>, defined alike in two routes.\<close>

definition try_history :: "YTMusic \<Rightarrow> pyval" where
  "try_history yt = (case yt_get_history yt of Inl e \<Rightarrow> PList [] | Inr h \<Rightarrow> h)"

text \<open>\<^verbatim>\<open>a.get("name")\<close> of the dicts among the elements.\<close>

fun names_of_dicts :: "pyval list \<Rightarrow> pyval list" where
  "names_of_dicts [] = []"
| "names_of_dicts (PDict a # xs) = dict_get a ''name'' PNone # names_of_dicts xs"
| "names_of_dicts (x # xs) = names_of_dicts xs"

text \<open>
  \<^verbatim>\<open>[a.get("name") for a in (item.get("artists") or []) if isinstance(a, dict)]\<close>
\<close>

definition artist_names :: "(string \<times> pyval) list \<Rightarrow> exn + pyval" where
  "artist_names item =
     (case py_iter (py_or (dict_get item ''artists'' PNone) (PList [])) of
        Inl e \<Rightarrow> Inl e
      | Inr xs \<Rightarrow> Inr (PList (names_of_dicts xs)))"

text \<open>The loop of \<^verbatim>\<open>/ytm/validate\<close> over \<^verbatim>\<open>enumerate(sample, 1)\<close>.\<close>

fun format_sample :: "int \<Rightarrow> pyval list \<Rightarrow> exn + pyval list" where
  "format_sample i [] = Inr []"
| "format_sample i (PDict item # rest) =
     (case artist_names item of
        Inl e \<Rightarrow> Inl e
      | Inr artists \<Rightarrow>
          (case format_sample (i + 1) rest of
             Inl e \<Rightarrow> Inl e
           | Inr formatted \<Rightarrow>
               Inr (PDict
                 [(''number'', PInt i),
                  (''title'', py_or (dict_get item ''title'' PNone) (PStr ''Unknown'')),
                  (''artists'', artists),
                  (''played'', py_or (dict_get item ''played'' PNone) (PStr []))]
                 # formatted)))"
| "format_sample i (x # rest) = format_sample (i + 1) rest"

definition validate_connection ::
  "string option \<Rightarrow> Settings \<Rightarrow> ytmusicapi \<Rightarrow> state \<Rightarrow> (exn + pyval) \<times> state" where
  "validate_connection x_client_token cfg lib s =
     (case verify_token x_client_token cfg of
        Inl e \<Rightarrow> (Inl e, s)
      | Inr u \<Rightarrow>
          (case make_yt lib s of
             (Inl e, s') \<Rightarrow> (Inl e, s')
           | (Inr None, s') \<Rightarrow>
               (Inr NOT_CONNECTED, s')
           | (Inr (Some yt), s') \<Rightarrow>
               (let history = try_history yt in
                if \<not> truthy history then
                  (Inr CONNECTED_NO_HISTORY, s')
                else
                  (case format_sample 1 (case history of PList xs \<Rightarrow> take 5 xs | _ \<Rightarrow> []) of
                     Inl e \<Rightarrow> (Inl e, s')
                   | Inr formatted \<Rightarrow>
                       (Inr (PDict
                          [(''ok'', PBool True),
                           (''message'', PStr ''Connection validated''),
                           (''sample'', PList formatted)]),
                        s')))))"

text \<open>
  The declared bounds of the query parameter \<^verbatim>\<open>limit\<close>
  (\<^verbatim>\<open>Query(50, ge=1, le=200)\<close>), checked by the framework before the route runs.
\<close>

definition query_limit :: "int option \<Rightarrow> exn + int" where
  "query_limit q =
     (case q of
        None \<Rightarrow> Inr 50
      | Some l \<Rightarrow> if 1 \<le> l \<and> l \<le> 200 then Inr l else Inl RequestValidationError)"

text \<open>
  \<^verbatim>\<open>(item.get("album") or {}).get("name") if isinstance(item.get("album"), dict) else ""\<close>
\<close>

definition album_name :: "(string \<times> pyval) list \<Rightarrow> exn + pyval" where
  "album_name item =
     (if is_dict (dict_get item ''album'' PNone)
      then py_get (py_or (dict_get item ''album'' PNone) (PDict [])) ''name'' PNone
      else Inr (PStr []))"

text \<open>\<^verbatim>\<open>(item.get("thumbnails") or [{}])[0].get("url", "")\<close>\<close>

definition thumbnail_url :: "(string \<times> pyval) list \<Rightarrow> exn + pyval" where
  "thumbnail_url item =
     (case py_first (py_or (dict_get item ''thumbnails'' PNone) (PList [PDict []])) of
        Inl e \<Rightarrow> Inl e
      | Inr t \<Rightarrow> py_get t ''url'' (PStr []))"

text \<open>The record appended for one dict of the history, its entries built in order.\<close>

definition normalize_item :: "(string \<times> pyval) list \<Rightarrow> exn + pyval" where
  "normalize_item item =
     (case artist_names item of
        Inl e \<Rightarrow> Inl e
      | Inr artists \<Rightarrow>
          (case album_name item of
             Inl e \<Rightarrow> Inl e
           | Inr album \<Rightarrow>
               (case thumbnail_url item of
                  Inl e \<Rightarrow> Inl e
                | Inr thumbnail \<Rightarrow>
                    Inr (PDict
                      [(''videoId'', dict_get item ''videoId'' (PStr [])),
                       (''title'', dict_get item ''title'' (PStr ''Unknown'')),
                       (''artists'', artists),
                       (''album'', album),
                       (''thumbnail'', thumbnail),
                       (''played'', dict_get item ''played'' (PStr []))]))))"

text \<open>The loop of \<^verbatim>\<open>/ytm/history\<close>: an element that is not a dict is passed over.\<close>

fun normalize :: "pyval list \<Rightarrow> exn + pyval list" where
  "normalize [] = Inr []"
| "normalize (PDict item # rest) =
     (case normalize_item item of
        Inl e \<Rightarrow> Inl e
      | Inr r \<Rightarrow>
          (case normalize rest of
             Inl e \<Rightarrow> Inl e
           | Inr normalized \<Rightarrow> Inr (r # normalized)))"
| "normalize (x # rest) = normalize rest"

text \<open>
  \<^verbatim>\<open>if isinstance(history, list) and len(history) > limit: history = history[:limit]\<close>,
  for a limit that passed \<open>query_limit\<close> and so is positive.
\<close>

definition truncate_history :: "pyval \<Rightarrow> int \<Rightarrow> pyval" where
  "truncate_history history limit =
     (case history of
        PList xs \<Rightarrow> if int (length xs) > limit then PList (take (nat limit) xs) else history
      | _ \<Rightarrow> history)"

definition get_history ::
  "int option \<Rightarrow> string option \<Rightarrow> Settings \<Rightarrow> ytmusicapi \<Rightarrow> state \<Rightarrow> (exn + pyval) \<times> state" where
  "get_history limit_q x_client_token cfg lib s =
     (case query_limit limit_q of
        Inl e \<Rightarrow> (Inl e, s)
      | Inr limit \<Rightarrow>
     (case verify_token x_client_token cfg of
        Inl e \<Rightarrow> (Inl e, s)
      | Inr u \<Rightarrow>
          (case make_yt lib s of
             (Inl e, s') \<Rightarrow> (Inl e, s')
           | (Inr None, s') \<Rightarrow> (Inl (HTTPException 404 NO_HEADERS), s')
           | (Inr (Some yt), s') \<Rightarrow>
               (let history = try_history yt in
                if \<not> truthy history then
                  (Inl (HTTPException 500 HISTORY_FAILED), s')
                else
                  (case py_iter (truncate_history history limit) of
                     Inl e \<Rightarrow> (Inl e, s')
                   | Inr items \<Rightarrow>
                       (case normalize items of
                          Inl e \<Rightarrow> (Inl e, s')
                        | Inr normalized \<Rightarrow> (Inr (PList normalized), s')))))))"

text \<open>
  \<^verbatim>\<open>/ytm/library\<close> and \<^verbatim>\<open>/ytm/search\<close> hand a bare \<^verbatim>\<open>lambda\<close> to the pool: what the
  client raises is raised again by the \<^verbatim>\<open>await\<close>.
\<close>

definition get_library ::
  "string option \<Rightarrow> Settings \<Rightarrow> ytmusicapi \<Rightarrow> state \<Rightarrow> (exn + pyval) \<times> state" where
  "get_library x_client_token cfg lib s =
     (case verify_token x_client_token cfg of
        Inl e \<Rightarrow> (Inl e, s)
      | Inr u \<Rightarrow>
          (case make_yt lib s of
             (Inl e, s') \<Rightarrow> (Inl e, s')
           | (Inr None, s') \<Rightarrow> (Inl (HTTPException 404 NO_HEADERS), s')
           | (Inr (Some yt), s') \<Rightarrow>
               (case yt_get_library_playlists yt of
                  Inl e \<Rightarrow> (Inl e, s')
                | Inr playlists \<Rightarrow> (Inr (py_or playlists (PList [])), s'))))"

definition search_music ::
  "string \<Rightarrow> string option \<Rightarrow> Settings \<Rightarrow> ytmusicapi \<Rightarrow> state \<Rightarrow> (exn + pyval) \<times> state" where
  "search_music query x_client_token cfg lib s =
     (case verify_token x_client_token cfg of
        Inl e \<Rightarrow> (Inl e, s)
      | Inr u \<Rightarrow>
          (case make_yt lib s of
             (Inl e, s') \<Rightarrow> (Inl e, s')
           | (Inr None, s') \<Rightarrow> (Inl (HTTPException 404 NO_HEADERS), s')
           | (Inr (Some yt), s') \<Rightarrow>
               (case yt_search yt query ''songs'' 20 of
                  Inl e \<Rightarrow> (Inl e, s')
                | Inr results \<Rightarrow> (Inr (py_or results (PList [])), s'))))"

text \<open>
  \<^verbatim>\<open>/ytm/connect\<close> (DELETE): the file is removed when it exists; an exception of the
  removal becomes a 500 whose detail ends with the text of the exception. The cache is
  not touched.
\<close>

definition disconnect :: "string option \<Rightarrow> Settings \<Rightarrow> state \<Rightarrow> (exn + pyval) \<times> state" where
  "disconnect x_client_token cfg s =
     (case verify_token x_client_token cfg of
        Inl e \<Rightarrow> (Inl e, s)
      | Inr u \<Rightarrow>
          if os_path_exists (disk s) then
            (case os_remove (disk s) of
               Inl msg \<Rightarrow> (Inl (HTTPException 500 (''Failed to delete files: '' @ msg)), s)
             | Inr d' \<Rightarrow>
                 (Inr (PDict [(''ok'', PBool True), (''message'', PStr ''Deleted headers'')]),
                  s\<lparr>disk := d'\<rparr>))
          else
            (Inr (PDict [(''ok'', PBool True), (''message'', PStr ''No headers to delete'')]), s))"


section \<open>The spec's reading of the session handle\<close>

text \<open>
  The lines the spec describes, for a list of keys and the headers of a document: the
  keys in their order, a key with no value or an empty value passed over.
\<close>

definition selected_lines :: "string list \<Rightarrow> (string \<times> string) list \<Rightarrow> string list" where
  "selected_lines keys hs =
     concat (map (\<lambda>k. case map_of hs k of
                          None \<Rightarrow> []
                        | Some v \<Rightarrow> if v = [] then [] else [k @ '': '' @ v]) keys)"

text \<open>
  The keys the spec names: authorization, visitor id, origin, client name and version,
  user agent, language, cookie.
\<close>

definition SPEC_KEYS :: "string list" where
  "SPEC_KEYS =
     [''authorization'',
      ''x-goog-visitor-id'',
      ''x-origin'',
      ''x-youtube-client-name'',
      ''x-youtube-client-version'',
      ''user-agent'',
      ''accept-language'',
      ''cookie'']"

text \<open>A document has a usable header when one of the keys has a non-empty value.\<close>

definition usable :: "HeaderIngest \<Rightarrow> bool" where
  "usable doc = (selected_lines HEADER_KEYS (headers doc) \<noteq> [])"

text \<open>The file system whose headers file holds the dump of a document.\<close>

definition holds :: "fs \<Rightarrow> HeaderIngest \<Rightarrow> bool" where
  "holds d doc = (headers_file d = Text (Dumped (payload_dict doc)))"


text \<open>Two documents agree on a list of keys when each key has the same value in both.\<close>

definition agree_on :: "string list \<Rightarrow> HeaderIngest \<Rightarrow> HeaderIngest \<Rightarrow> bool" where
  "agree_on keys doc doc' = (map (map_of (headers doc)) keys = map (map_of (headers doc')) keys)"


section \<open>The shape of the history response\<close>

text \<open>The field names of a record of \<^verbatim>\<open>/ytm/history\<close>, in the order of the dict literal.\<close>

definition FIELDS :: "string list" where
  "FIELDS = [''videoId'', ''title'', ''artists'', ''album'', ''thumbnail'', ''played'']"

definition has_fields :: "string list \<Rightarrow> pyval \<Rightarrow> bool" where
  "has_fields names r = (case r of PDict kvs \<Rightarrow> map fst kvs = names | _ \<Rightarrow> False)"

text \<open>The dicts among the elements of a list, in their order.\<close>

fun dict_items :: "pyval list \<Rightarrow> (string \<times> pyval) list list" where
  "dict_items [] = []"
| "dict_items (PDict item # xs) = item # dict_items xs"
| "dict_items (x # xs) = dict_items xs"


section \<open>Sample inputs\<close>

text \<open>
  A client whose every call has the outcome \<open>r\<close>, and a package whose \<^verbatim>\<open>setup\<close>
  returns the raw header text as the auth string and whose constructor returns that
  client.
\<close>

definition sample_client :: "exn + pyval \<Rightarrow> YTMusic" where
  "sample_client r =
     \<lparr> yt_get_history = r, yt_get_library_playlists = r, yt_search = (\<lambda>q f l. r) \<rparr>"

definition sample_lib :: "exn + pyval \<Rightarrow> ytmusicapi" where
  "sample_lib r =
     \<lparr> ytm_setup = (\<lambda>raw. Inr raw), ytm_YTMusic = (\<lambda>auth. Inr (sample_client r)) \<rparr>"

text \<open>
  A package whose \<^verbatim>\<open>setup\<close> rejects the header text with the exception \<open>e\<close>, as the
  package does for a text without a cookie line.
\<close>

definition rejecting_lib :: "exn \<Rightarrow> ytmusicapi" where
  "rejecting_lib e =
     \<lparr> ytm_setup = (\<lambda>raw. Inl e), ytm_YTMusic = (\<lambda>auth. Inr (sample_client (Inr (PList [])))) \<rparr>"

definition sample_doc :: "(string \<times> string) list \<Rightarrow> HeaderIngest" where
  "sample_doc hs =
     \<lparr> url = ''https://music.youtube.com/youtubei/v1/browse'',
       time = ''2025-10-01T12:00:00Z'',
       headers = hs \<rparr>"

definition stored :: "HeaderIngest \<Rightarrow> fs" where
  "stored doc =
     \<lparr> headers_file = Text (Dumped (payload_dict doc)), writable = True, removable = True,
       remove_error = [] \<rparr>"

definition empty_fs :: fs where
  "empty_fs = \<lparr> headers_file = Missing, writable = True, removable = True, remove_error = [] \<rparr>"

text \<open>A headers file that can be written and not read (mode 0200), not removable.\<close>

definition write_only_fs :: fs where
  "write_only_fs =
     \<lparr> headers_file = Unreadable, writable = True, removable = False,
       remove_error = ''[Errno 13] Permission denied'' \<rparr>"

definition fresh :: "fs \<Rightarrow> state" where
  "fresh d = \<lparr> disk = d, cache = None \<rparr>"

definition sample_track :: "string \<Rightarrow> pyval" where
  "sample_track t = PDict
     [(''videoId'', PStr ''v1''),
      (''title'', PStr t),
      (''artists'', PList [PDict [(''name'', PStr ''A''), (''id'', PStr ''UC1'')]]),
      (''album'', PDict [(''name'', PStr ''B'')]),
      (''thumbnails'', PList [PDict [(''url'', PStr ''http://t/1.jpg'')]]),
      (''played'', PStr ''Today'')]"


section \<open>Join codes and slugs\<close>

lemma join_choices_ok:
  "alphabet \<noteq> [] \<Longrightarrow>
   \<exists>s. join_choices rnd is alphabet = Inr s \<and> length s = length is \<and> set s \<subseteq> set alphabet"
proof (induction "is")
  case Nil
  then show ?case by simp
next
  case (Cons i "is")
  then obtain s where s: "join_choices rnd is alphabet = Inr s" "length s = length is"
    "set s \<subseteq> set alphabet" by blast
  from Cons.prems have "alphabet ! (rnd i mod length alphabet) \<in> set alphabet"
    by simp
  with s Cons.prems show ?case by (simp add: choice_def)
qed

text \<open>
  C9. For every length \<open>n \<ge> 0\<close>, every non-empty alphabet and every outcome of the
  random draws, \<^verbatim>\<open>generate_code(n, alphabet)\<close> returns a string of length exactly \<open>n\<close>
  all of whose characters belong to the alphabet; with \<open>n = 4\<close> this is the default call.
\<close>

theorem generate_code_ok:
  "alphabet \<noteq> [] \<Longrightarrow> 0 \<le> n \<Longrightarrow>
   \<exists>s. generate_code rnd n alphabet = Inr s \<and> int (length s) = n \<and> set s \<subseteq> set alphabet"
  using join_choices_ok [of alphabet rnd "[0 ..< nat n]"]
  by (auto simp: generate_code_def)

theorem generate_code_ok_witness:
  "DEFAULT_ALPHABET \<noteq> [] \<and> (0::int) \<le> 4 \<and>
   (\<exists>s. generate_code (\<lambda>i. 7 * i + 3) 4 DEFAULT_ALPHABET = Inr s \<and> int (length s) = 4
        \<and> set s \<subseteq> set DEFAULT_ALPHABET)"
  using generate_code_ok [of DEFAULT_ALPHABET 4 "\<lambda>i. 7 * i + 3"]
  by (simp add: DEFAULT_ALPHABET_def BASE_ALPHABET_def SPECIALS_def)

text \<open>
  C10. \<^verbatim>\<open>slugify("Hello, World!")\<close> is \<^verbatim>\<open>"hello-world"\<close>, and \<^verbatim>\<open>slugify("")\<close> is
  \<^verbatim>\<open>"n-a"\<close>.
\<close>

theorem slugify_scenarios:
  "slugify ''Hello, World!'' = ''hello-world'' \<and> slugify [] = ''n-a''"
  by code_simp


section \<open>The credential store\<close>

lemma save_headers_True:
  "save_headers d data = (True, d') \<Longrightarrow> headers_file d' \<noteq> Unreadable \<Longrightarrow>
   headers_file d' = Text (Dumped data)"
  by (auto simp: save_headers_def os_makedirs_def open_w_dump_def
      split: if_splits file_state.splits)

text \<open>A successful save leaves an unreadable file unreadable, and no other.\<close>

lemma save_headers_Unreadable:
  "save_headers d data = (True, d') \<Longrightarrow>
   (headers_file d' = Unreadable) = (headers_file d = Unreadable)"
  by (auto simp: save_headers_def os_makedirs_def open_w_dump_def
      split: if_splits file_state.splits)

lemma load_headers_Dumped:
  "headers_file d = Text (Dumped v) \<Longrightarrow> load_headers d = Inr v"
  by (simp add: load_headers_def os_path_exists_def open_r_def json_load_def)

text \<open>
  C7. \<^verbatim>\<open>load_headers\<close> never raises: in every state of the file system it returns a
  value, which is \<^verbatim>\<open>None\<close> when the file is missing, cannot be read or does not parse,
  and the parsed document when the file exists and parses.
\<close>

theorem load_headers_fails_soft:
  "load_headers d =
     Inr (case headers_file d of
            Missing \<Rightarrow> PNone
          | Unreadable \<Rightarrow> PNone
          | Text Garbage \<Rightarrow> PNone
          | Text (Dumped v) \<Rightarrow> v)"
  by (simp add: load_headers_def os_path_exists_def open_r_def json_load_def
      split: file_state.splits file_text.splits)

text \<open>
  C6, as stated, fails: on a headers file that can be written and not read,
  \<^verbatim>\<open>save_headers(doc)\<close> returns true and the \<^verbatim>\<open>load_headers()\<close> that follows returns
  \<^verbatim>\<open>None\<close>, which is not the document.
\<close>

theorem write_only_counterexample:
  "save_headers write_only_fs (payload_dict (sample_doc [(''authorization'', ''x'')]))
     = (True, write_only_fs)
   \<and> load_headers write_only_fs = Inr PNone
   \<and> payload_dict (sample_doc [(''authorization'', ''x'')]) \<noteq> PNone"
  by (simp add: save_headers_def os_makedirs_def open_w_dump_def write_only_fs_def
      load_headers_def os_path_exists_def open_r_def payload_dict_def)

text \<open>
  C6, amended. Round trip of the store: when \<^verbatim>\<open>save_headers(doc)\<close> returns true and the
  headers file can be opened for reading, the \<^verbatim>\<open>load_headers()\<close> that follows returns a
  document equal to \<open>doc\<close>.
\<close>

theorem save_load_roundtrip_readable:
  "save_headers d (payload_dict doc) = (True, d') \<Longrightarrow> headers_file d' \<noteq> Unreadable \<Longrightarrow>
   load_headers d' = Inr (payload_dict doc)"
  by (rule load_headers_Dumped) (rule save_headers_True)

theorem save_load_roundtrip_readable_witness:
  "save_headers empty_fs (payload_dict (sample_doc [(''authorization'', ''x'')]))
     = (True, stored (sample_doc [(''authorization'', ''x'')]))
   \<and> headers_file (stored (sample_doc [(''authorization'', ''x'')])) \<noteq> Unreadable
   \<and> load_headers (stored (sample_doc [(''authorization'', ''x'')]))
     = Inr (payload_dict (sample_doc [(''authorization'', ''x'')]))"
proof -
  have saved: "save_headers empty_fs (payload_dict (sample_doc [(''authorization'', ''x'')]))
     = (True, stored (sample_doc [(''authorization'', ''x'')]))"
    by (simp add: save_headers_def os_makedirs_def open_w_dump_def empty_fs_def stored_def)
  have readable: "headers_file (stored (sample_doc [(''authorization'', ''x'')])) \<noteq> Unreadable"
    by (simp add: stored_def)
  from save_load_roundtrip_readable [OF saved readable] saved readable show ?thesis by simp
qed


section \<open>The session handle\<close>

lemma dict_get_headers:
  "dict_get (map (\<lambda>kv. (fst kv, PStr (snd kv))) hs) k PNone =
     (case map_of hs k of None \<Rightarrow> PNone | Some v \<Rightarrow> PStr v)"
  by (induction hs) (auto simp: dict_get_def)

lemma raw_lines_headers:
  "raw_lines (PDict (map (\<lambda>kv. (fst kv, PStr (snd kv))) hs)) keys = Inr (selected_lines keys hs)"
  by (induction keys) (auto simp: selected_lines_def dict_get_headers split: option.splits)

lemma py_or_headers:
  "py_or (PDict (map (\<lambda>kv. (fst kv, PStr (snd kv))) hs)) (PDict []) =
     PDict (map (\<lambda>kv. (fst kv, PStr (snd kv))) hs)"
  by (cases hs) (simp_all add: py_or_def)

text \<open>
  What the body of the cache computes from a stored document: the loop of the source
  yields the lines of the nine keys, and an empty list of lines yields no handle.
\<close>

lemma wrapped_of_document:
  assumes "holds d doc"
  shows "get_auth_string_wrapped lib d =
     (if selected_lines HEADER_KEYS (headers doc) = [] then Inr None
      else (case ytm_setup lib (join [CHR 0x0A] (selected_lines HEADER_KEYS (headers doc))) of
              Inl e \<Rightarrow> Inl e
            | Inr auth \<Rightarrow> Inr (Some auth)))"
proof -
  from assms have "load_headers d = Inr (payload_dict doc)"
    by (simp add: holds_def load_headers_Dumped)
  moreover have "truthy (payload_dict doc)"
    by (simp add: payload_dict_def)
  moreover have "py_get (payload_dict doc) ''headers'' PNone =
      Inr (PDict (map (\<lambda>kv. (fst kv, PStr (snd kv))) (headers doc)))"
    by (simp add: payload_dict_def dict_get_def)
  ultimately show ?thesis
    by (simp add: get_auth_string_wrapped_def py_or_headers raw_lines_headers)
qed

lemma selected_lines_cong:
  "map (map_of hs) keys = map (map_of hs') keys \<Longrightarrow> selected_lines keys hs = selected_lines keys hs'"
  by (induction keys) (auto simp: selected_lines_def)

lemma cached_after_clear:
  "fst (get_cached_auth_string lib (cache_clear s)) = get_auth_string_wrapped lib (disk s)"
  by (simp add: get_cached_auth_string_def cache_clear_def split: sum.splits)

text \<open>
  C2, as stated, fails: the handle is said to depend on the eight keys the spec names
  and on no other. Two documents that agree on those eight keys (neither has any of
  them) and differ in \<^verbatim>\<open>x-goog-authuser\<close> give different lines to \<^verbatim>\<open>setup\<close> and
  get different handles, where the spec's keys give no line at all.
\<close>

theorem spec_keys_counterexample:
  "agree_on SPEC_KEYS (sample_doc [(''x-goog-authuser'', ''0'')]) (sample_doc [(''x-goog-authuser'', ''1'')])
   \<and> selected_lines SPEC_KEYS (headers (sample_doc [(''x-goog-authuser'', ''0'')])) = []
   \<and> raw_lines (PDict [(''x-goog-authuser'', PStr ''0'')]) HEADER_KEYS = Inr [''x-goog-authuser: 0'']
   \<and> raw_lines (PDict [(''x-goog-authuser'', PStr ''1'')]) HEADER_KEYS = Inr [''x-goog-authuser: 1'']
   \<and> get_auth_string_wrapped (sample_lib (Inr PNone)) (stored (sample_doc [(''x-goog-authuser'', ''0'')]))
       = Inr (Some ''x-goog-authuser: 0'')
   \<and> get_auth_string_wrapped (sample_lib (Inr PNone)) (stored (sample_doc [(''x-goog-authuser'', ''1'')]))
       = Inr (Some ''x-goog-authuser: 1'')
   \<and> get_auth_string_wrapped (sample_lib (Inr PNone)) (stored (sample_doc [(''x-goog-authuser'', ''0'')]))
       \<noteq> get_auth_string_wrapped (sample_lib (Inr PNone)) (stored (sample_doc [(''x-goog-authuser'', ''1'')]))"
  by (simp add: agree_on_def SPEC_KEYS_def sample_doc_def sample_lib_def stored_def
      get_auth_string_wrapped_def load_headers_def os_path_exists_def open_r_def json_load_def
      payload_dict_def dict_get_def py_or_def HEADER_KEYS_def selected_lines_def)

text \<open>
  C2, amended. The handle of a stored document is what \<^verbatim>\<open>setup\<close> makes of the lines
  \<^verbatim>\<open>key: value\<close> of the nine keys authorization, x-goog-authuser, x-goog-visitor-id,
  x-origin, x-youtube-client-name, x-youtube-client-version, user-agent,
  accept-language, cookie, in that order, joined by newlines, a key that is absent or
  has an empty value passed over (no handle when no line is left); no other header takes
  part, and two documents that agree on the nine keys get the same handle.
\<close>

theorem auth_string_from_header_keys:
  assumes "holds d doc"
  shows "get_auth_string_wrapped lib d =
     (if selected_lines HEADER_KEYS (headers doc) = [] then Inr None
      else (case ytm_setup lib (join [CHR 0x0A] (selected_lines HEADER_KEYS (headers doc))) of
              Inl e \<Rightarrow> Inl e
            | Inr auth \<Rightarrow> Inr (Some auth)))
   \<and> (\<forall>d' doc'. holds d' doc' \<and> agree_on HEADER_KEYS doc' doc
        \<longrightarrow> get_auth_string_wrapped lib d' = get_auth_string_wrapped lib d)"
proof (intro conjI allI impI)
  show "get_auth_string_wrapped lib d =
     (if selected_lines HEADER_KEYS (headers doc) = [] then Inr None
      else (case ytm_setup lib (join [CHR 0x0A] (selected_lines HEADER_KEYS (headers doc))) of
              Inl e \<Rightarrow> Inl e
            | Inr auth \<Rightarrow> Inr (Some auth)))"
    using assms by (rule wrapped_of_document)
next
  fix d' doc'
  assume h: "holds d' doc' \<and> agree_on HEADER_KEYS doc' doc"
  then have "selected_lines HEADER_KEYS (headers doc') = selected_lines HEADER_KEYS (headers doc)"
    by (simp add: agree_on_def selected_lines_cong)
  moreover from h have "holds d' doc'" by simp
  ultimately show "get_auth_string_wrapped lib d' = get_auth_string_wrapped lib d"
    using wrapped_of_document [of d' doc' lib] wrapped_of_document [OF assms, of lib] by simp
qed

theorem auth_string_from_header_keys_witness:
  "holds (stored (sample_doc [(''cookie'', ''c''), (''x-goog-authuser'', ''0''), (''x-origin'', [])]))
         (sample_doc [(''cookie'', ''c''), (''x-goog-authuser'', ''0''), (''x-origin'', [])])
   \<and> get_auth_string_wrapped (sample_lib (Inr PNone))
         (stored (sample_doc [(''cookie'', ''c''), (''x-goog-authuser'', ''0''), (''x-origin'', [])]))
       = Inr (Some (''x-goog-authuser: 0'' @ [CHR 0x0A] @ ''cookie: c''))
   \<and> agree_on HEADER_KEYS
         (sample_doc [(''x-goog-authuser'', ''0''), (''x-origin'', []), (''other'', ''z''), (''cookie'', ''c'')])
         (sample_doc [(''cookie'', ''c''), (''x-goog-authuser'', ''0''), (''x-origin'', [])])
   \<and> get_auth_string_wrapped (sample_lib (Inr PNone))
         (stored (sample_doc [(''x-goog-authuser'', ''0''), (''x-origin'', []), (''other'', ''z''), (''cookie'', ''c'')]))
       = get_auth_string_wrapped (sample_lib (Inr PNone))
         (stored (sample_doc [(''cookie'', ''c''), (''x-goog-authuser'', ''0''), (''x-origin'', [])]))"
proof -
  let ?doc = "sample_doc [(''cookie'', ''c''), (''x-goog-authuser'', ''0''), (''x-origin'', [])]"
  let ?doc' = "sample_doc [(''x-goog-authuser'', ''0''), (''x-origin'', []), (''other'', ''z''), (''cookie'', ''c'')]"
  have h: "holds (stored ?doc) ?doc"
    by (simp add: holds_def stored_def)
  have h': "holds (stored ?doc') ?doc'"
    by (simp add: holds_def stored_def)
  have agree: "agree_on HEADER_KEYS ?doc' ?doc"
    by (simp add: agree_on_def HEADER_KEYS_def sample_doc_def)
  have lines: "selected_lines HEADER_KEYS (headers ?doc) = [''x-goog-authuser: 0'', ''cookie: c'']"
    by (simp add: selected_lines_def HEADER_KEYS_def sample_doc_def)
  note t = auth_string_from_header_keys [OF h, of "sample_lib (Inr PNone)"]
  from t lines have eq1: "get_auth_string_wrapped (sample_lib (Inr PNone)) (stored ?doc)
      = Inr (Some (''x-goog-authuser: 0'' @ [CHR 0x0A] @ ''cookie: c''))"
    by (simp add: sample_lib_def)
  from t h' agree have eq2: "get_auth_string_wrapped (sample_lib (Inr PNone)) (stored ?doc')
      = get_auth_string_wrapped (sample_lib (Inr PNone)) (stored ?doc)"
    by blast
  from h agree eq1 eq2 show ?thesis by simp
qed


section \<open>Routes without a session\<close>

lemma make_yt_None:
  "fst (get_cached_auth_string lib s) = Inr None \<Longrightarrow> fst (make_yt lib s) = Inr None"
  by (cases "get_cached_auth_string lib s") (simp add: make_yt_def)

lemma validate_not_connected:
  "fst (make_yt lib s) = Inr None \<Longrightarrow>
   fst (validate_connection (Some (ytm_client_token cfg)) cfg lib s) = Inr NOT_CONNECTED"
  by (cases "make_yt lib s") (simp add: validate_connection_def verify_token_def)

lemma history_not_connected:
  "fst (make_yt lib s) = Inr None \<Longrightarrow> query_limit limit_q = Inr limit \<Longrightarrow>
   fst (get_history limit_q (Some (ytm_client_token cfg)) cfg lib s) = Inl (HTTPException 404 NO_HEADERS)"
  by (cases "make_yt lib s") (simp add: get_history_def verify_token_def)

lemma library_not_connected:
  "fst (make_yt lib s) = Inr None \<Longrightarrow>
   fst (get_library (Some (ytm_client_token cfg)) cfg lib s) = Inl (HTTPException 404 NO_HEADERS)"
  by (cases "make_yt lib s") (simp add: get_library_def verify_token_def)

lemma search_not_connected:
  "fst (make_yt lib s) = Inr None \<Longrightarrow>
   fst (search_music query (Some (ytm_client_token cfg)) cfg lib s) = Inl (HTTPException 404 NO_HEADERS)"
  by (cases "make_yt lib s") (simp add: search_music_def verify_token_def)

lemma get_cached_disk:
  "disk (snd (get_cached_auth_string lib s)) = disk s"
  by (simp add: get_cached_auth_string_def split: option.splits sum.splits)

lemma disk_cache_clear:
  "disk (cache_clear s) = disk s"
  by (simp add: cache_clear_def)

text \<open>
  C5, as stated, fails in its first half, in two ways. A document in which the key
  \<^verbatim>\<open>authorization\<close> is present with the empty value has one of the required keys, and
  the session read after an invalidation is absent. A document with a usable key whose
  header text \<^verbatim>\<open>setup\<close> rejects gets no handle either: the exception of \<^verbatim>\<open>setup\<close>
  leaves \<^verbatim>\<open>_get_cached_auth_string\<close>.
\<close>

theorem no_handle_counterexample:
  "map_of (headers (sample_doc [(''authorization'', [])])) ''authorization'' = Some []
   \<and> ''authorization'' \<in> set HEADER_KEYS
   \<and> fst (get_cached_auth_string (sample_lib (Inr PNone))
            (cache_clear (fresh (stored (sample_doc [(''authorization'', [])]))))) = Inr None
   \<and> usable (sample_doc [(''authorization'', ''x'')])
   \<and> fst (get_cached_auth_string (rejecting_lib (UpstreamError ''missing headers''))
            (cache_clear (fresh (stored (sample_doc [(''authorization'', ''x'')])))))
       = Inl (UpstreamError ''missing headers'')"
  by code_simp

text \<open>
  C5, amended. For a stored document in which one of the nine keys has a non-empty
  value and whose header lines \<^verbatim>\<open>setup\<close> accepts, the session read after an
  invalidation is a handle that is not absent, the one \<^verbatim>\<open>setup\<close> returned; nothing is
  said of a document whose lines \<^verbatim>\<open>setup\<close> rejects. The session is a function of the
  document: every state that holds a document with the same values at the nine keys
  (the same document, whatever the order of its headers and the rest of the state) gives
  the same result, and so does a second invalidation and read. For a document in which
  every one of the nine keys is absent or empty the session is absent, and with a valid
  token \<^verbatim>\<open>/ytm/validate\<close> answers that it is not connected while \<^verbatim>\<open>/ytm/history\<close>,
  \<^verbatim>\<open>/ytm/library\<close> and \<^verbatim>\<open>/ytm/search\<close> answer 404.
\<close>

theorem session_after_invalidate:
  assumes "holds (disk s) doc" and "query_limit limit_q = Inr limit"
  shows "(\<forall>auth. usable doc
              \<and> ytm_setup lib (join [CHR 0x0A] (selected_lines HEADER_KEYS (headers doc))) = Inr auth
            \<longrightarrow> fst (get_cached_auth_string lib (cache_clear s)) = Inr (Some auth))
       \<and> (\<forall>s' doc'. holds (disk s') doc' \<and> agree_on HEADER_KEYS doc' doc \<longrightarrow>
            fst (get_cached_auth_string lib (cache_clear s')) =
            fst (get_cached_auth_string lib (cache_clear s)))
       \<and> fst (get_cached_auth_string lib
                 (cache_clear (snd (get_cached_auth_string lib (cache_clear s)))))
           = fst (get_cached_auth_string lib (cache_clear s))
       \<and> (\<not> usable doc \<longrightarrow>
            fst (get_cached_auth_string lib (cache_clear s)) = Inr None
          \<and> fst (validate_connection (Some (ytm_client_token cfg)) cfg lib (cache_clear s))
              = Inr NOT_CONNECTED
          \<and> fst (get_history limit_q (Some (ytm_client_token cfg)) cfg lib (cache_clear s))
              = Inl (HTTPException 404 NO_HEADERS)
          \<and> fst (get_library (Some (ytm_client_token cfg)) cfg lib (cache_clear s))
              = Inl (HTTPException 404 NO_HEADERS)
          \<and> fst (search_music query (Some (ytm_client_token cfg)) cfg lib (cache_clear s))
              = Inl (HTTPException 404 NO_HEADERS))"
proof (intro conjI allI impI)
  fix auth
  assume "usable doc
    \<and> ytm_setup lib (join [CHR 0x0A] (selected_lines HEADER_KEYS (headers doc))) = Inr auth"
  with assms(1) show "fst (get_cached_auth_string lib (cache_clear s)) = Inr (Some auth)"
    by (simp add: cached_after_clear wrapped_of_document usable_def)
next
  fix s' :: state and doc'
  assume h: "holds (disk s') doc' \<and> agree_on HEADER_KEYS doc' doc"
  then have "selected_lines HEADER_KEYS (headers doc') = selected_lines HEADER_KEYS (headers doc)"
    by (simp add: agree_on_def selected_lines_cong)
  moreover from h have "holds (disk s') doc'" by simp
  ultimately show "fst (get_cached_auth_string lib (cache_clear s')) =
      fst (get_cached_auth_string lib (cache_clear s))"
    using wrapped_of_document [of "disk s'" doc' lib] wrapped_of_document [OF assms(1), of lib]
    by (simp add: cached_after_clear)
next
  show "fst (get_cached_auth_string lib
              (cache_clear (snd (get_cached_auth_string lib (cache_clear s)))))
      = fst (get_cached_auth_string lib (cache_clear s))"
    by (simp add: cached_after_clear get_cached_disk disk_cache_clear)
next
  assume "\<not> usable doc"
  with assms(1) have absent: "fst (get_cached_auth_string lib (cache_clear s)) = Inr None"
    by (simp add: cached_after_clear wrapped_of_document usable_def)
  then have no_client: "fst (make_yt lib (cache_clear s)) = Inr None"
    by (rule make_yt_None)
  show "fst (get_cached_auth_string lib (cache_clear s)) = Inr None"
    by (rule absent)
  show "fst (validate_connection (Some (ytm_client_token cfg)) cfg lib (cache_clear s))
      = Inr NOT_CONNECTED"
    using no_client by (rule validate_not_connected)
  show "fst (get_history limit_q (Some (ytm_client_token cfg)) cfg lib (cache_clear s))
      = Inl (HTTPException 404 NO_HEADERS)"
    using no_client assms(2) by (rule history_not_connected)
  show "fst (get_library (Some (ytm_client_token cfg)) cfg lib (cache_clear s))
      = Inl (HTTPException 404 NO_HEADERS)"
    using no_client by (rule library_not_connected)
  show "fst (search_music query (Some (ytm_client_token cfg)) cfg lib (cache_clear s))
      = Inl (HTTPException 404 NO_HEADERS)"
    using no_client by (rule search_not_connected)
qed

theorem session_after_invalidate_witness:
  "holds (disk (fresh (stored (sample_doc [(''x-goog-authuser'', ''0''), (''cookie'', ''c'')]))))
         (sample_doc [(''x-goog-authuser'', ''0''), (''cookie'', ''c'')])
   \<and> query_limit (Some 10) = Inr 10
   \<and> usable (sample_doc [(''x-goog-authuser'', ''0''), (''cookie'', ''c'')])
   \<and> ytm_setup (sample_lib (Inr PNone))
        (join [CHR 0x0A] (selected_lines HEADER_KEYS
           (headers (sample_doc [(''x-goog-authuser'', ''0''), (''cookie'', ''c'')]))))
       = Inr (''x-goog-authuser: 0'' @ [CHR 0x0A] @ ''cookie: c'')
   \<and> fst (get_cached_auth_string (sample_lib (Inr PNone))
        (cache_clear (fresh (stored (sample_doc [(''x-goog-authuser'', ''0''), (''cookie'', ''c'')])))))
       = Inr (Some (''x-goog-authuser: 0'' @ [CHR 0x0A] @ ''cookie: c''))
   \<and> holds (disk \<lparr> disk = stored (sample_doc [(''cookie'', ''c''), (''x-goog-authuser'', ''0'')]),
                     cache = Some None \<rparr>)
        (sample_doc [(''cookie'', ''c''), (''x-goog-authuser'', ''0'')])
   \<and> agree_on HEADER_KEYS (sample_doc [(''cookie'', ''c''), (''x-goog-authuser'', ''0'')])
        (sample_doc [(''x-goog-authuser'', ''0''), (''cookie'', ''c'')])
   \<and> fst (get_cached_auth_string (sample_lib (Inr PNone))
        (cache_clear \<lparr> disk = stored (sample_doc [(''cookie'', ''c''), (''x-goog-authuser'', ''0'')]),
                        cache = Some None \<rparr>))
     = fst (get_cached_auth_string (sample_lib (Inr PNone))
        (cache_clear (fresh (stored (sample_doc [(''x-goog-authuser'', ''0''), (''cookie'', ''c'')])))))
   \<and> holds (disk (fresh (stored (sample_doc [(''authorization'', [])])))) (sample_doc [(''authorization'', [])])
   \<and> \<not> usable (sample_doc [(''authorization'', [])])
   \<and> fst (get_history (Some 10) (Some (ytm_client_token settings)) settings (sample_lib (Inr PNone))
        (cache_clear (fresh (stored (sample_doc [(''authorization'', [])]))))) = Inl (HTTPException 404 NO_HEADERS)"
proof -
  let ?d1 = "sample_doc [(''x-goog-authuser'', ''0''), (''cookie'', ''c'')]"
  let ?d2 = "sample_doc [(''cookie'', ''c''), (''x-goog-authuser'', ''0'')]"
  let ?d0 = "sample_doc [(''authorization'', [])]"
  let ?handle = "''x-goog-authuser: 0'' @ [CHR 0x0A] @ ''cookie: c''"
  have h1: "holds (disk (fresh (stored ?d1))) ?d1"
    by (simp add: holds_def fresh_def stored_def)
  have h2: "holds (disk \<lparr> disk = stored ?d2, cache = Some None \<rparr>) ?d2"
    by (simp add: holds_def stored_def)
  have h0: "holds (disk (fresh (stored ?d0))) ?d0"
    by (simp add: holds_def fresh_def stored_def)
  have q: "query_limit (Some 10) = Inr 10"
    by (simp add: query_limit_def)
  have u1: "usable ?d1"
    by (simp add: usable_def selected_lines_def HEADER_KEYS_def sample_doc_def)
  have u0: "\<not> usable ?d0"
    by (simp add: usable_def selected_lines_def HEADER_KEYS_def sample_doc_def)
  have a: "agree_on HEADER_KEYS ?d2 ?d1"
    by (simp add: agree_on_def HEADER_KEYS_def sample_doc_def)
  have l1: "ytm_setup (sample_lib (Inr PNone))
      (join [CHR 0x0A] (selected_lines HEADER_KEYS (headers ?d1))) = Inr ?handle"
    by (simp add: selected_lines_def HEADER_KEYS_def sample_doc_def sample_lib_def)
  note t1 = session_after_invalidate [OF h1 q, of "sample_lib (Inr PNone)"]
  from t1 u1 l1
  have r1: "fst (get_cached_auth_string (sample_lib (Inr PNone)) (cache_clear (fresh (stored ?d1))))
      = Inr (Some ?handle)"
    by blast
  from t1 h2 a
  have r2: "fst (get_cached_auth_string (sample_lib (Inr PNone))
        (cache_clear \<lparr> disk = stored ?d2, cache = Some None \<rparr>))
      = fst (get_cached_auth_string (sample_lib (Inr PNone)) (cache_clear (fresh (stored ?d1))))"
    by blast
  from session_after_invalidate [OF h0 q, of "sample_lib (Inr PNone)" settings] u0
  have r0: "fst (get_history (Some 10) (Some (ytm_client_token settings)) settings (sample_lib (Inr PNone))
        (cache_clear (fresh (stored ?d0)))) = Inl (HTTPException 404 NO_HEADERS)"
    by blast
  from h1 h2 h0 q u1 u0 a l1 r1 r2 r0 show ?thesis by blast
qed


section \<open>Coherence of the cache with the store\<close>

text \<open>
  A successful ingest empties the cache, so the next read derives the handle from the
  store, which holds the document just saved when the file can be read.
\<close>

lemma ingest_invalidates:
  assumes "fst (ingest_headers payload x_client_token cfg s) = Inr v"
    and "headers_file (disk s) \<noteq> Unreadable"
  shows "cache (snd (ingest_headers payload x_client_token cfg s)) = None
       \<and> holds (disk (snd (ingest_headers payload x_client_token cfg s))) payload"
proof (cases "save_headers (disk s) (payload_dict payload)")
  case (Pair saved d')
  with assms(1) have "saved" and tok: "verify_token x_client_token cfg = Inr ()"
    by (auto simp: ingest_headers_def split: sum.splits if_splits)
  with Pair have saved_d': "save_headers (disk s) (payload_dict payload) = (True, d')"
    by simp
  with assms(2) have "headers_file d' \<noteq> Unreadable"
    by (simp add: save_headers_Unreadable)
  with saved_d' have "headers_file d' = Text (Dumped (payload_dict payload))"
    by (rule save_headers_True)
  with Pair \<open>saved\<close> tok show ?thesis
    by (simp add: ingest_headers_def cache_clear_def holds_def)
qed

text \<open>
  \<^verbatim>\<open>disconnect\<close> never touches the cache: a handle cached before the file was deleted
  is still returned afterwards.
\<close>

lemma disconnect_cache:
  "cache (snd (disconnect x_client_token cfg s)) = cache s"
  by (simp add: disconnect_def split: sum.splits)

text \<open>
  The other outcomes of \<^verbatim>\<open>disconnect\<close>: nothing to delete is a success, and a removal
  that fails is a 500 whose detail carries the text of the exception.
\<close>

lemma disconnect_nothing_to_delete:
  "headers_file (disk s) = Missing \<Longrightarrow>
   disconnect (Some (ytm_client_token cfg)) cfg s =
     (Inr (PDict [(''ok'', PBool True), (''message'', PStr ''No headers to delete'')]), s)"
  by (simp add: disconnect_def verify_token_def os_path_exists_def)

lemma disconnect_failure:
  "headers_file (disk s) \<noteq> Missing \<Longrightarrow> \<not> removable (disk s) \<Longrightarrow>
   disconnect (Some (ytm_client_token cfg)) cfg s =
     (Inl (HTTPException 500 (''Failed to delete files: '' @ remove_error (disk s))), s)"
  by (simp add: disconnect_def verify_token_def os_path_exists_def os_remove_def)

lemma cached_read:
  "cache s = Some r \<Longrightarrow> fst (get_cached_auth_string lib s) = Inr r"
  by (simp add: get_cached_auth_string_def)

lemma stale_after_disconnect:
  "cache s = Some r \<Longrightarrow>
   fst (get_cached_auth_string lib (snd (disconnect x_client_token cfg s))) = Inr r"
  by (rule cached_read) (simp add: disconnect_cache)

text \<open>
  C1 does not hold of the code. After an ingest, a read that fills the cache and a
  disconnect that deletes the headers file, the store has no document and would yield no
  handle, and the next read still returns the handle of the deleted document:
  \<^verbatim>\<open>disconnect\<close> lacks the \<^verbatim>\<open>cache_clear\<close> that \<^verbatim>\<open>ingest_headers\<close> performs.
\<close>

theorem disconnect_keeps_cached_handle:
  "(let lib = sample_lib (Inr PNone);
        tok = Some ''dev-token'';
        doc = sample_doc [(''x-goog-authuser'', ''0''), (''cookie'', ''c'')];
        handle = ''x-goog-authuser: 0'' @ [CHR 0x0A] @ ''cookie: c'';
        s1 = snd (ingest_headers doc tok settings (fresh empty_fs));
        s2 = snd (get_cached_auth_string lib s1);
        s3 = snd (disconnect tok settings s2)
    in disk s1 = stored doc
     \<and> fst (get_cached_auth_string lib s1) = Inr (Some handle)
     \<and> fst (disconnect tok settings s2) = Inr (PDict [(''ok'', PBool True), (''message'', PStr ''Deleted headers'')])
     \<and> headers_file (disk s3) = Missing
     \<and> get_auth_string_wrapped lib (disk s3) = Inr None
     \<and> fst (get_cached_auth_string lib s3) = Inr (Some handle))"
  by code_simp


section \<open>The history route\<close>

lemma normalize_item_fields:
  "normalize_item item = Inr r \<Longrightarrow> has_fields FIELDS r"
  by (auto simp: normalize_item_def has_fields_def FIELDS_def split: sum.splits)

lemma normalize_pointwise:
  "normalize xs = Inr recs \<Longrightarrow> map Inr recs = map normalize_item (dict_items xs)"
  by (induction xs arbitrary: recs rule: normalize.induct) (auto split: sum.splits)

lemma length_dict_items: "length (dict_items xs) \<le> length xs"
  by (induction xs rule: dict_items.induct) auto

lemma dict_items_filter: "map PDict (dict_items xs) = filter is_dict xs"
  by (induction xs rule: dict_items.induct) auto

lemma normalize_fields:
  "normalize xs = Inr recs \<Longrightarrow> list_all (has_fields FIELDS) recs"
  by (induction xs arbitrary: recs rule: normalize.induct)
    (auto split: sum.splits dest: normalize_item_fields)

text \<open>The route once the limit is accepted, the token valid and a client made.\<close>

lemma get_history_connected:
  assumes "query_limit limit_q = Inr limit"
    and "fst (make_yt lib s) = Inr (Some yt)"
  shows "fst (get_history limit_q (Some (ytm_client_token cfg)) cfg lib s) =
     (if \<not> truthy (try_history yt) then Inl (HTTPException 500 HISTORY_FAILED)
      else (case py_iter (truncate_history (try_history yt) limit) of
              Inl e \<Rightarrow> Inl e
            | Inr items \<Rightarrow>
                (case normalize items of
                   Inl e \<Rightarrow> Inl e
                 | Inr normalized \<Rightarrow> Inr (PList normalized))))"
  using assms
  by (cases "make_yt lib s")
    (simp add: get_history_def verify_token_def Let_def split: sum.splits)

lemma truncate_list:
  "0 \<le> limit \<Longrightarrow> truncate_history (PList xs) limit = PList (take (nat limit) xs)"
  by (simp add: truncate_history_def)

lemma query_limit_range:
  "query_limit limit_q = Inr limit \<Longrightarrow> 1 \<le> limit \<and> limit \<le> 200"
  by (auto simp: query_limit_def split: option.splits if_splits)

text \<open>The client made from the sample package for a stored document with a usable header.\<close>

lemma make_yt_sample:
  assumes "usable doc"
  shows "make_yt (sample_lib r) (fresh (stored doc)) =
     (Inr (Some (sample_client r)),
      \<lparr> disk = stored doc,
        cache = Some (Some (join [CHR 0x0A] (selected_lines HEADER_KEYS (headers doc)))) \<rparr>)"
proof -
  have h: "holds (stored doc) doc"
    by (simp add: holds_def stored_def)
  from assms have ne: "selected_lines HEADER_KEYS (headers doc) \<noteq> []"
    by (simp add: usable_def)
  have j: "join [CHR 0x0A] (selected_lines HEADER_KEYS (headers doc)) \<noteq> []"
  proof (cases "selected_lines HEADER_KEYS (headers doc)")
    case Nil
    with ne show ?thesis by simp
  next
    case (Cons l ls)
    then have "l \<in> set (selected_lines HEADER_KEYS (headers doc))" by simp
    then have "l \<noteq> []"
      by (auto simp: selected_lines_def split: option.splits if_splits)
    with Cons show ?thesis by (cases ls) simp_all
  qed
  from ne j show ?thesis
    by (simp add: make_yt_def get_cached_auth_string_def fresh_def
        wrapped_of_document [OF h] sample_lib_def)
qed

text \<open>
  C3, as stated, fails in its third case: with a session present, a call that succeeds
  with zero rows is answered 500, by the same response as a call that fails, and not by
  200 with an empty sequence.
\<close>

theorem zero_rows_counterexample:
  "fst (make_yt (sample_lib (Inr (PList []))) (fresh (stored (sample_doc [(''cookie'', ''c'')]))))
     = Inr (Some (sample_client (Inr (PList []))))
   \<and> yt_get_history (sample_client (Inr (PList []))) = Inr (PList [])
   \<and> fst (get_history None (Some (ytm_client_token settings)) settings
            (sample_lib (Inr (PList []))) (fresh (stored (sample_doc [(''cookie'', ''c'')]))))
     = Inl (HTTPException 500 HISTORY_FAILED)
   \<and> fst (get_history None (Some (ytm_client_token settings)) settings
            (sample_lib (Inl (UpstreamError ''timeout''))) (fresh (stored (sample_doc [(''cookie'', ''c'')]))))
     = Inl (HTTPException 500 HISTORY_FAILED)"
proof -
  have u: "usable (sample_doc [(''cookie'', ''c'')])"
    by (simp add: usable_def selected_lines_def HEADER_KEYS_def sample_doc_def)
  have q: "query_limit None = Inr 50"
    by (simp add: query_limit_def)
  have m: "fst (make_yt (sample_lib r) (fresh (stored (sample_doc [(''cookie'', ''c'')]))))
      = Inr (Some (sample_client r))" for r
    by (simp add: make_yt_sample [OF u])
  show ?thesis
    by (simp add: m get_history_connected [OF q m] try_history_def sample_client_def)
qed

text \<open>
  C3, amended. For \<^verbatim>\<open>/ytm/history\<close> with a valid token and an accepted limit: when no
  session handle can be derived the route answers 404; when a session exists and the
  third-party call fails it answers 500; when the call succeeds with zero rows it
  answers the same 500; when the call returns a non-empty list whose leading \<open>limit\<close>
  elements normalize, it answers 200 with the normalized records.
\<close>

theorem history_outcomes:
  assumes "query_limit limit_q = Inr limit"
  shows "(fst (get_cached_auth_string lib s) = Inr None \<longrightarrow>
            fst (get_history limit_q (Some (ytm_client_token cfg)) cfg lib s)
              = Inl (HTTPException 404 NO_HEADERS))
       \<and> (\<forall>yt e. fst (make_yt lib s) = Inr (Some yt) \<and> yt_get_history yt = Inl e \<longrightarrow>
            fst (get_history limit_q (Some (ytm_client_token cfg)) cfg lib s)
              = Inl (HTTPException 500 HISTORY_FAILED))
       \<and> (\<forall>yt. fst (make_yt lib s) = Inr (Some yt) \<and> yt_get_history yt = Inr (PList []) \<longrightarrow>
            fst (get_history limit_q (Some (ytm_client_token cfg)) cfg lib s)
              = Inl (HTTPException 500 HISTORY_FAILED))
       \<and> (\<forall>yt x xs recs. fst (make_yt lib s) = Inr (Some yt)
              \<and> yt_get_history yt = Inr (PList (x # xs))
              \<and> normalize (take (nat limit) (x # xs)) = Inr recs \<longrightarrow>
            fst (get_history limit_q (Some (ytm_client_token cfg)) cfg lib s) = Inr (PList recs))"
proof (intro conjI allI impI)
  assume "fst (get_cached_auth_string lib s) = Inr None"
  then have "fst (make_yt lib s) = Inr None"
    by (rule make_yt_None)
  then show "fst (get_history limit_q (Some (ytm_client_token cfg)) cfg lib s)
      = Inl (HTTPException 404 NO_HEADERS)"
    using assms by (rule history_not_connected)
next
  fix yt e
  assume "fst (make_yt lib s) = Inr (Some yt) \<and> yt_get_history yt = Inl e"
  then show "fst (get_history limit_q (Some (ytm_client_token cfg)) cfg lib s)
      = Inl (HTTPException 500 HISTORY_FAILED)"
    using get_history_connected [OF assms, of lib s yt cfg] by (simp add: try_history_def)
next
  fix yt
  assume "fst (make_yt lib s) = Inr (Some yt) \<and> yt_get_history yt = Inr (PList [])"
  then show "fst (get_history limit_q (Some (ytm_client_token cfg)) cfg lib s)
      = Inl (HTTPException 500 HISTORY_FAILED)"
    using get_history_connected [OF assms, of lib s yt cfg] by (simp add: try_history_def)
next
  fix yt x xs recs
  assume h: "fst (make_yt lib s) = Inr (Some yt) \<and> yt_get_history yt = Inr (PList (x # xs))
      \<and> normalize (take (nat limit) (x # xs)) = Inr recs"
  from assms have "0 \<le> limit"
    by (auto dest: query_limit_range)
  with h show "fst (get_history limit_q (Some (ytm_client_token cfg)) cfg lib s) = Inr (PList recs)"
    using get_history_connected [OF assms, of lib s yt cfg]
    by (simp add: try_history_def truncate_list)
qed

theorem history_outcomes_witness:
  "query_limit None = Inr 50
   \<and> fst (get_cached_auth_string (sample_lib (Inr PNone)) (fresh empty_fs)) = Inr None
   \<and> fst (get_history None (Some (ytm_client_token settings)) settings
            (sample_lib (Inr PNone)) (fresh empty_fs))
       = Inl (HTTPException 404 NO_HEADERS)
   \<and> fst (get_history None (Some (ytm_client_token settings)) settings
            (sample_lib (Inl (UpstreamError ''timeout''))) (fresh (stored (sample_doc [(''cookie'', ''c'')]))))
       = Inl (HTTPException 500 HISTORY_FAILED)
   \<and> fst (get_history None (Some (ytm_client_token settings)) settings
            (sample_lib (Inr (PList []))) (fresh (stored (sample_doc [(''cookie'', ''c'')]))))
       = Inl (HTTPException 500 HISTORY_FAILED)
   \<and> fst (get_history None (Some (ytm_client_token settings)) settings
            (sample_lib (Inr (PList [sample_track ''one'']))) (fresh (stored (sample_doc [(''cookie'', ''c'')]))))
       = Inr (PList [PDict
           [(''videoId'', PStr ''v1''), (''title'', PStr ''one''),
            (''artists'', PList [PStr ''A'']), (''album'', PStr ''B''),
            (''thumbnail'', PStr ''http://t/1.jpg''), (''played'', PStr ''Today'')]])"
proof -
  let ?s = "fresh (stored (sample_doc [(''cookie'', ''c'')]))"
  let ?tok = "Some (ytm_client_token settings)"
  have q: "query_limit None = Inr 50"
    by (simp add: query_limit_def)
  have u: "usable (sample_doc [(''cookie'', ''c'')])"
    by (simp add: usable_def selected_lines_def HEADER_KEYS_def sample_doc_def)
  have m: "fst (make_yt (sample_lib r) ?s) = Inr (Some (sample_client r))" for r
    by (simp add: make_yt_sample [OF u])
  have g: "yt_get_history (sample_client r) = r" for r
    by (simp add: sample_client_def)
  have a: "fst (get_cached_auth_string (sample_lib (Inr PNone)) (fresh empty_fs)) = Inr None"
    by (simp add: get_cached_auth_string_def fresh_def empty_fs_def get_auth_string_wrapped_def
        load_headers_def os_path_exists_def)
  have n: "normalize (take (nat 50) [sample_track ''one'']) = Inr [PDict
           [(''videoId'', PStr ''v1''), (''title'', PStr ''one''),
            (''artists'', PList [PStr ''A'']), (''album'', PStr ''B''),
            (''thumbnail'', PStr ''http://t/1.jpg''), (''played'', PStr ''Today'')]]"
    by code_simp
  note t0 = history_outcomes [OF q, of "sample_lib (Inr PNone)" "fresh empty_fs" settings]
  note t1 = history_outcomes [OF q, of "sample_lib (Inl (UpstreamError ''timeout''))" ?s settings]
  note t2 = history_outcomes [OF q, of "sample_lib (Inr (PList []))" ?s settings]
  note t3 = history_outcomes [OF q, of "sample_lib (Inr (PList [sample_track ''one'']))" ?s settings]
  from t0 a have r0: "fst (get_history None ?tok settings (sample_lib (Inr PNone)) (fresh empty_fs))
      = Inl (HTTPException 404 NO_HEADERS)"
    by blast
  from t1 m g have r1: "fst (get_history None ?tok settings (sample_lib (Inl (UpstreamError ''timeout''))) ?s)
      = Inl (HTTPException 500 HISTORY_FAILED)"
    by blast
  from t2 m g have r2: "fst (get_history None ?tok settings (sample_lib (Inr (PList []))) ?s)
      = Inl (HTTPException 500 HISTORY_FAILED)"
    by blast
  from t3 m g n have r3: "fst (get_history None ?tok settings (sample_lib (Inr (PList [sample_track ''one'']))) ?s)
      = Inr (PList [PDict
           [(''videoId'', PStr ''v1''), (''title'', PStr ''one''),
            (''artists'', PList [PStr ''A'']), (''album'', PStr ''B''),
            (''thumbnail'', PStr ''http://t/1.jpg''), (''played'', PStr ''Today'')]])"
    by blast
  from q a r0 r1 r2 r3 show ?thesis by blast
qed

text \<open>
  C8. For an authorized request whose limit is accepted (1 to 200, 50 when none is
  given), a session, and an upstream history that is a list: a response of the route is
  a list of at most \<open>limit\<close> records; the records are, in order, the normalizations of
  the dicts among the leading \<open>limit\<close> elements of the upstream list, the other elements
  being dropped; and every record has exactly the fields videoId, title, artists, album,
  thumbnail, played.
\<close>

theorem history_response_bound:
  assumes "query_limit limit_q = Inr limit"
    and "fst (make_yt lib s) = Inr (Some yt)"
    and "yt_get_history yt = Inr (PList upstream)"
    and "fst (get_history limit_q (Some (ytm_client_token cfg)) cfg lib s) = Inr response"
  shows "\<exists>recs. response = PList recs
      \<and> int (length recs) \<le> limit
      \<and> map Inr recs = map normalize_item (dict_items (take (nat limit) upstream))
      \<and> length recs = length (filter is_dict (take (nat limit) upstream))
      \<and> list_all (has_fields FIELDS) recs"
proof -
  from assms(1) have range: "1 \<le> limit" "limit \<le> 200"
    by (auto dest: query_limit_range)
  from assms(3) have th: "try_history yt = PList upstream"
    by (simp add: try_history_def)
  from assms(4) get_history_connected [OF assms(1,2), of cfg] th range
  obtain recs where recs: "normalize (take (nat limit) upstream) = Inr recs"
    and resp: "response = PList recs"
    by (auto simp: truncate_list split: if_splits sum.splits)
  from recs have pw: "map Inr recs = map normalize_item (dict_items (take (nat limit) upstream))"
    by (rule normalize_pointwise)
  then have "length recs = length (dict_items (take (nat limit) upstream))"
    by (metis length_map)
  moreover have "length (dict_items (take (nat limit) upstream))
      = length (filter is_dict (take (nat limit) upstream))"
    by (metis dict_items_filter length_map)
  moreover have "length (dict_items (take (nat limit) upstream)) \<le> nat limit"
    using length_dict_items [of "take (nat limit) upstream"] by simp
  ultimately have "int (length recs) \<le> limit"
    and "length recs = length (filter is_dict (take (nat limit) upstream))"
    using range by auto
  with resp pw normalize_fields [OF recs] show ?thesis by blast
qed

theorem history_response_bound_witness:
  "query_limit (Some 2) = Inr 2
   \<and> fst (make_yt (sample_lib (Inr (PList [sample_track ''one'', PStr ''noise'', sample_track ''two''])))
          (fresh (stored (sample_doc [(''cookie'', ''c'')]))))
       = Inr (Some (sample_client (Inr (PList [sample_track ''one'', PStr ''noise'', sample_track ''two'']))))
   \<and> yt_get_history (sample_client (Inr (PList [sample_track ''one'', PStr ''noise'', sample_track ''two''])))
       = Inr (PList [sample_track ''one'', PStr ''noise'', sample_track ''two''])
   \<and> fst (get_history (Some 2) (Some (ytm_client_token settings)) settings
          (sample_lib (Inr (PList [sample_track ''one'', PStr ''noise'', sample_track ''two''])))
          (fresh (stored (sample_doc [(''cookie'', ''c'')]))))
       = Inr (PList [PDict
           [(''videoId'', PStr ''v1''), (''title'', PStr ''one''),
            (''artists'', PList [PStr ''A'']), (''album'', PStr ''B''),
            (''thumbnail'', PStr ''http://t/1.jpg''), (''played'', PStr ''Today'')]])
   \<and> (\<exists>recs. PList [PDict
           [(''videoId'', PStr ''v1''), (''title'', PStr ''one''),
            (''artists'', PList [PStr ''A'']), (''album'', PStr ''B''),
            (''thumbnail'', PStr ''http://t/1.jpg''), (''played'', PStr ''Today'')]] = PList recs
        \<and> int (length recs) \<le> 2
        \<and> list_all (has_fields FIELDS) recs)"
proof -
  let ?up = "[sample_track ''one'', PStr ''noise'', sample_track ''two'']"
  let ?lib = "sample_lib (Inr (PList ?up))"
  let ?s = "fresh (stored (sample_doc [(''cookie'', ''c'')]))"
  let ?resp = "PList [PDict
           [(''videoId'', PStr ''v1''), (''title'', PStr ''one''),
            (''artists'', PList [PStr ''A'']), (''album'', PStr ''B''),
            (''thumbnail'', PStr ''http://t/1.jpg''), (''played'', PStr ''Today'')]]"
  have q: "query_limit (Some 2) = Inr 2"
    by (simp add: query_limit_def)
  have u: "usable (sample_doc [(''cookie'', ''c'')])"
    by (simp add: usable_def selected_lines_def HEADER_KEYS_def sample_doc_def)
  have m: "fst (make_yt ?lib ?s) = Inr (Some (sample_client (Inr (PList ?up))))"
    by (simp add: make_yt_sample [OF u])
  have g: "yt_get_history (sample_client (Inr (PList ?up))) = Inr (PList ?up)"
    by (simp add: sample_client_def)
  have t: "try_history (sample_client (Inr (PList ?up))) = PList ?up"
    by (simp add: try_history_def g)
  have n: "normalize (take (nat 2) ?up) = Inr [PDict
           [(''videoId'', PStr ''v1''), (''title'', PStr ''one''),
            (''artists'', PList [PStr ''A'']), (''album'', PStr ''B''),
            (''thumbnail'', PStr ''http://t/1.jpg''), (''played'', PStr ''Today'')]]"
    by code_simp
  have r: "fst (get_history (Some 2) (Some (ytm_client_token settings)) settings ?lib ?s) = Inr ?resp"
    using n by (simp add: get_history_connected [OF q m] t truncate_list)
  from history_response_bound [OF q m g r] q m g r show ?thesis by blast
qed


section \<open>The library and search routes\<close>

text \<open>
  What the two routes answer with a client: the exception of the call as it is, or the
  result (an empty list for a falsy one).
\<close>

lemma get_library_connected:
  "fst (make_yt lib s) = Inr (Some yt) \<Longrightarrow>
   fst (get_library (Some (ytm_client_token cfg)) cfg lib s) =
     (case yt_get_library_playlists yt of
        Inl e \<Rightarrow> Inl e
      | Inr playlists \<Rightarrow> Inr (py_or playlists (PList [])))"
  by (cases "make_yt lib s") (simp add: get_library_def verify_token_def split: sum.splits)

lemma search_music_connected:
  "fst (make_yt lib s) = Inr (Some yt) \<Longrightarrow>
   fst (search_music query (Some (ytm_client_token cfg)) cfg lib s) =
     (case yt_search yt query ''songs'' 20 of
        Inl e \<Rightarrow> Inl e
      | Inr results \<Rightarrow> Inr (py_or results (PList [])))"
  by (cases "make_yt lib s") (simp add: search_music_def verify_token_def split: sum.splits)

text \<open>
  C4 does not hold of the code. With a session and a client whose calls raise,
  \<^verbatim>\<open>/ytm/library\<close> and \<^verbatim>\<open>/ytm/search\<close> raise the client's exception, where
  \<^verbatim>\<open>/ytm/validate\<close> and \<^verbatim>\<open>/ytm/history\<close>, which wrap the call in \<^verbatim>\<open>try\<close>, take the
  failure for an empty history.
\<close>

theorem library_search_propagate:
  "fst (get_library (Some ''dev-token'') settings (sample_lib (Inl (UpstreamError ''timeout'')))
          (fresh (stored (sample_doc [(''x-goog-authuser'', ''0''), (''cookie'', ''c'')]))))
     = Inl (UpstreamError ''timeout'')
   \<and> fst (search_music ''song'' (Some ''dev-token'') settings (sample_lib (Inl (UpstreamError ''timeout'')))
          (fresh (stored (sample_doc [(''x-goog-authuser'', ''0''), (''cookie'', ''c'')]))))
     = Inl (UpstreamError ''timeout'')
   \<and> fst (validate_connection (Some ''dev-token'') settings (sample_lib (Inl (UpstreamError ''timeout'')))
          (fresh (stored (sample_doc [(''x-goog-authuser'', ''0''), (''cookie'', ''c'')]))))
     = Inr CONNECTED_NO_HISTORY
   \<and> fst (get_history None (Some ''dev-token'') settings (sample_lib (Inl (UpstreamError ''timeout'')))
          (fresh (stored (sample_doc [(''x-goog-authuser'', ''0''), (''cookie'', ''c'')]))))
     = Inl (HTTPException 500 HISTORY_FAILED)"
  by code_simp

end
